theory Spec2Isabelle
  imports Main
begin

section \<open>Python values used by the two scripts\<close>

text \<open>
  Python strings are modelled as \<^typ>\<open>string\<close>: a list of characters, where
  \<open>s + t\<close> is \<open>s @ t\<close>, \<open>s[2:]\<close> is \<open>drop 2 s\<close> and \<open>s.startswith(p)\<close>
  compares the first \<open>len(p)\<close> characters of \<open>s\<close> with \<open>p\<close>.
\<close>

definition startswith :: "string \<Rightarrow> string \<Rightarrow> bool" where
  "startswith s p = (take (length p) s = p)"

definition endswith :: "string \<Rightarrow> string \<Rightarrow> bool" where
  "endswith s p = (length p \<le> length s \<and> drop (length s - length p) s = p)"

text \<open>
  Python is dynamically typed: an attribute read yields some value, and
  \<open>"..." + v\<close> raises \<open>TypeError\<close> unless \<open>v\<close> is a \<open>str\<close>.
\<close>

datatype py_value = PyStr string | PyInt int | PyNone

datatype py_error = TypeError

definition str_add :: "string \<Rightarrow> py_value \<Rightarrow> py_error + string" where
  "str_add s v = (case v of PyStr t \<Rightarrow> Inr (s @ t) | _ \<Rightarrow> Inl TypeError)"


section \<open>run_grpc_server.py: the health-check servicer\<close>

text \<open>
  Modelled from the spec: the generated module \<open>health.health_pb2\<close> is not among the
  sources. The spec gives the request one message field and the response a status
  and a message field, and names the status the servicer answers with, \<open>SERVING\<close>.
  \<open>UNKNOWN\<close> and the empty message are what a response holds between its
  construction and the two assignments of \<open>Check\<close>.
\<close>

datatype ServingStatus = UNKNOWN | SERVING | NOT_SERVING

record HealthCheckRequest =
  request_message :: py_value

record HealthCheckResponse =
  status :: ServingStatus
  response_message :: string

definition new_HealthCheckResponse :: HealthCheckResponse where
  "new_HealthCheckResponse = \<lparr>status = UNKNOWN, response_message = ''''\<rparr>"

text \<open>
  \<^verbatim>\<open>
  def Check(self, request, target):
      result = HealthCheckResponse()
      result.status = HealthCheckResponse.SERVING
      result.response_message = "Hello request_message=" + request.request_message
      return result
  \<close>
  The method is modelled with explicit state passing. The state \<open>w\<close> stands for
  everything that outlives the call (the servicer \<open>self\<close> and the call context
  \<open>target\<close> included); the method reads and writes none of it, so it is handed
  back as it came. \<open>result\<close> is a local object: when the concatenation raises,
  the half-built response is lost with the frame and only the error leaves.
\<close>

definition Check ::
  "'s \<Rightarrow> HealthCheckRequest \<Rightarrow> 'c \<Rightarrow> 'w \<Rightarrow> (py_error + HealthCheckResponse) \<times> 'w" where
  "Check self request target w =
     (let result = new_HealthCheckResponse;
          result = result\<lparr>status := SERVING\<rparr>
      in case str_add ''Hello request_message='' (request_message request) of
           Inl e \<Rightarrow> (Inl e, w)
         | Inr m \<Rightarrow> (Inr (result\<lparr>response_message := m\<rparr>), w))"


section \<open>grpc_protoc.py: the search-path patcher and compiler delegate\<close>

subsection \<open>The interpreter state the script touches\<close>

text \<open>
  \<open>sys.argv\<close> and \<open>sys.path\<close>, the two process-wide lists of the module \<open>sys\<close>.
  \<open>sys.argv[0]\<close> is the name the script was started under; the arguments follow.
\<close>

record sys =
  sys_argv :: "string list"
  sys_path :: "string list"

subsection \<open>add_to_python_path\<close>

text \<open>
  \<^verbatim>\<open>
  def add_to_python_path(new_path):
      existing_path = sys.path
      absolute_path = os.path.abspath(new_path)
      if absolute_path not in existing_path:
          sys.path.append(absolute_path)
      return sys.path
  \<close>
  \<open>os.path.abspath\<close> belongs to the standard library, not to the script: it is the
  parameter \<open>abspath\<close>. \<open>existing_path\<close> is another name of the list \<open>sys.path\<close>,
  \<open>append\<close> changes that list in place, and the list is what the function returns:
  the model returns the list as it stands at the \<open>return\<close>, paired with the new state.
\<close>

definition add_to_python_path ::
  "(string \<Rightarrow> string) \<Rightarrow> string \<Rightarrow> sys \<Rightarrow> string list \<times> sys" where
  "add_to_python_path abspath new_path s =
     (let existing_path = sys_path s;
          absolute_path = abspath new_path;
          s' = (if absolute_path \<notin> set existing_path
                then s\<lparr>sys_path := sys_path s @ [absolute_path]\<rparr>
                else s)
      in (sys_path s', s'))"

subsection \<open>The script body\<close>

text \<open>
  \<^verbatim>\<open>
  for item in sys.argv:
      if item.startswith('-I'):
          add_to_python_path(item[2:])
  protoc.main(sys.argv[1:])
  \<close>
  The loop runs over the whole of \<open>sys.argv\<close>, index 0 included, and drops the value
  \<open>add_to_python_path\<close> returns.
\<close>

fun scan_argv :: "(string \<Rightarrow> string) \<Rightarrow> string list \<Rightarrow> sys \<Rightarrow> sys" where
  "scan_argv abspath [] s = s"
| "scan_argv abspath (item # items) s =
     (if startswith item ''-I''
      then scan_argv abspath items (snd (add_to_python_path abspath (drop 2 item) s))
      else scan_argv abspath items s)"

text \<open>
  \<open>grpc_tools.protoc.main\<close> is a library function as well: the parameter
  \<open>protoc_main\<close>, which for a list of arguments either returns the compiler's status
  (\<open>Inr\<close>) or raises (\<open>Inl\<close>). The call is the script's last statement and an
  expression statement: the returned value is not bound, not tested and not given to
  \<open>sys.exit\<close>, so when the call returns the script runs off its end and the
  interpreter exits with status 0. Nothing catches an exception of the call: it leaves
  the script as it is.

  A run is recorded by the interpreter state with which \<open>protoc.main\<close> is entered,
  the argument list it is called with, and how the script ends: \<open>Inr n\<close> for a normal
  end with exit status \<open>n\<close>, \<open>Inl e\<close> for the uncaught exception \<open>e\<close>.
\<close>

record 'e run =
  at_call :: sys
  protoc_argv :: "string list"
  outcome :: "'e + int"

definition script_main ::
  "(string \<Rightarrow> string) \<Rightarrow> (string list \<Rightarrow> 'e + int) \<Rightarrow> sys \<Rightarrow> 'e run" where
  "script_main abspath protoc_main s =
     (let s' = scan_argv abspath (sys_argv s) s;
          command_arguments = drop 1 (sys_argv s')
      in \<lparr>at_call = s',
          protoc_argv = command_arguments,
          outcome = (case protoc_main command_arguments of
                       Inl e \<Rightarrow> Inl e
                     | Inr returned \<Rightarrow> Inr 0)\<rparr>)"

subsection \<open>os.path.abspath on POSIX\<close>

text \<open>
  Where a property depends on what \<open>os.path.abspath\<close> computes, the parameter is
  instantiated with the standard library's POSIX implementation (module
  \<open>posixpath\<close>), with the working directory \<open>os.getcwd()\<close> as the argument \<open>cwd\<close>:
  \<^verbatim>\<open>
  def join(a, b):
      if b.startswith('/'): path = b
      elif not a or a.endswith('/'): path = a + b
      else: path = a + '/' + b
      return path

  def normpath(path):
      if not path: return '.'
      initial_slashes = path.startswith('/')
      if initial_slashes and path.startswith('//') and not path.startswith('///'):
          initial_slashes = 2
      comps = path.split('/')
      new_comps = []
      for comp in comps:
          if comp in ('', '.'): continue
          if (comp != '..' or (not initial_slashes and not new_comps) or
                  (new_comps and new_comps[-1] == '..')):
              new_comps.append(comp)
          elif new_comps:
              new_comps.pop()
      path = '/'.join(new_comps)
      if initial_slashes: path = '/' * initial_slashes + path
      return path or '.'

  def abspath(path):
      if not path.startswith('/'): path = join(os.getcwd(), path)
      return normpath(path)
  \<close>
\<close>

fun split_sep :: "string \<Rightarrow> string list" where
  "split_sep [] = [[]]"
| "split_sep (c # cs) =
     (if c = CHR ''/'' then [] # split_sep cs
      else (case split_sep cs of
              [] \<Rightarrow> [[c]]
            | w # ws \<Rightarrow> (c # w) # ws))"

fun join_sep :: "string list \<Rightarrow> string" where
  "join_sep [] = []"
| "join_sep [w] = w"
| "join_sep (w # v # ws) = w @ ''/'' @ join_sep (v # ws)"

definition posix_join :: "string \<Rightarrow> string \<Rightarrow> string" where
  "posix_join a b =
     (if startswith b ''/'' then b
      else if a = [] \<or> endswith a ''/'' then a @ b
      else a @ ''/'' @ b)"

definition initial_slashes :: "string \<Rightarrow> nat" where
  "initial_slashes path =
     (if startswith path ''/''
      then (if startswith path ''//'' \<and> \<not> startswith path ''///'' then 2 else 1)
      else 0)"

fun norm_comps :: "nat \<Rightarrow> string list \<Rightarrow> string list \<Rightarrow> string list" where
  "norm_comps slashes [] new_comps = new_comps"
| "norm_comps slashes (component # comps) new_comps =
     (if component = [] \<or> component = ''.'' then norm_comps slashes comps new_comps
      else if component \<noteq> ''..'' \<or> (slashes = 0 \<and> new_comps = []) \<or>
              (new_comps \<noteq> [] \<and> last new_comps = ''..'')
      then norm_comps slashes comps (new_comps @ [component])
      else if new_comps \<noteq> [] then norm_comps slashes comps (butlast new_comps)
      else norm_comps slashes comps new_comps)"

definition normpath :: "string \<Rightarrow> string" where
  "normpath path =
     (if path = [] then ''.''
      else (let slashes = initial_slashes path;
                new_comps = norm_comps slashes (split_sep path) [];
                joined = join_sep new_comps;
                result = (if slashes \<noteq> 0 then replicate slashes CHR ''/'' @ joined
                          else joined)
            in if result = [] then ''.'' else result))"

definition os_path_abspath :: "string \<Rightarrow> string \<Rightarrow> string" where
  "os_path_abspath cwd path =
     normpath (if \<not> startswith path ''/'' then posix_join cwd path else path)"


section \<open>The health-check servicer: properties\<close>

text \<open>
  C1. For every request whose \<open>request_message\<close> is a string \<open>M\<close>, \<open>Check\<close> returns
  a response whose status is \<open>SERVING\<close> and whose message is exactly
  \<open>"Hello request_message="\<close> followed by \<open>M\<close>.
\<close>

theorem Check_greets:
  assumes "request_message request = PyStr M"
  shows "fst (Check self request target w) =
           Inr \<lparr>status = SERVING, response_message = ''Hello request_message='' @ M\<rparr>"
  using assms by (simp add: Check_def str_add_def new_HealthCheckResponse_def)

theorem Check_greets_ping:
  "request_message \<lparr>request_message = PyStr ''ping''\<rparr> = PyStr ''ping'' \<and>
   fst (Check () \<lparr>request_message = PyStr ''ping''\<rparr> () ()) =
     Inr \<lparr>status = SERVING, response_message = ''Hello request_message=ping''\<rparr>"
  using Check_greets [of "\<lparr>request_message = PyStr ''ping''\<rparr>" "''ping''" "()" "()" "()"]
  by simp

text \<open>
  C7. The servicer cannot fail: for every request carrying a string message,
  \<open>Check\<close> completes with a response (never with an error), it leaves the state
  outside the call as it found it, and the response depends on nothing but the
  request (not on the servicer, the context or that state).
\<close>

theorem Check_cannot_fail:
  assumes "request_message request = PyStr M"
  shows "(\<exists>r. fst (Check self request target w) = Inr r) \<and>
         snd (Check self request target w) = w \<and>
         fst (Check self request target w) = fst (Check self' request target' w')"
  using assms by (simp add: Check_def str_add_def)

theorem Check_cannot_fail_empty_message:
  "request_message \<lparr>request_message = PyStr ''''\<rparr> = PyStr '''' \<and>
   (\<exists>r. fst (Check () \<lparr>request_message = PyStr ''''\<rparr> (0::nat) [1::int]) = Inr r) \<and>
   snd (Check () \<lparr>request_message = PyStr ''''\<rparr> (0::nat) [1::int]) = [1] \<and>
   fst (Check () \<lparr>request_message = PyStr ''''\<rparr> (0::nat) [1::int]) =
     fst (Check () \<lparr>request_message = PyStr ''''\<rparr> (7::nat) [2::int])"
proof -
  have h: "request_message \<lparr>request_message = PyStr ''''\<rparr> = PyStr ''''"
    by simp
  from Check_cannot_fail [OF h, of "()" "0::nat" "[1::int]" "()" "7::nat" "[2::int]"] h
  show ?thesis by blast
qed


section \<open>The search-path patcher: auxiliary facts\<close>

lemma add_to_python_path_argv:
  "sys_argv (snd (add_to_python_path abspath new_path s)) = sys_argv s"
  by (simp add: add_to_python_path_def Let_def)

lemma add_to_python_path_path:
  "sys_path (snd (add_to_python_path abspath new_path s)) =
     (if abspath new_path \<in> set (sys_path s) then sys_path s
      else sys_path s @ [abspath new_path])"
  by (simp add: add_to_python_path_def Let_def)

lemma add_to_python_path_present:
  "abspath new_path \<in> set (sys_path s) \<Longrightarrow> snd (add_to_python_path abspath new_path s) = s"
  by (simp add: add_to_python_path_def Let_def)

lemma scan_argv_argv: "sys_argv (scan_argv abspath items s) = sys_argv s"
  by (induction items arbitrary: s) (simp_all add: add_to_python_path_argv)

lemma scan_argv_extends: "\<exists>added. sys_path (scan_argv abspath items s) = sys_path s @ added"
proof (induction items arbitrary: s)
  case Nil
  show ?case by simp
next
  case (Cons item items)
  show ?case
  proof (cases "startswith item ''-I''")
    case False
    with Cons.IH [of s] show ?thesis by simp
  next
    case True
    let ?t = "snd (add_to_python_path abspath (drop 2 item) s)"
    from Cons.IH [of ?t] obtain added where
      a: "sys_path (scan_argv abspath items ?t) = sys_path ?t @ added" by blast
    have "\<exists>one. sys_path ?t = sys_path s @ one"
      by (simp add: add_to_python_path_path)
    then obtain one where "sys_path ?t = sys_path s @ one" by blast
    with a True show ?thesis by simp
  qed
qed

lemma scan_argv_set:
  "set (sys_path (scan_argv abspath items s)) =
     set (sys_path s) \<union> (\<lambda>a. abspath (drop 2 a)) ` {a \<in> set items. startswith a ''-I''}"
  by (induction items arbitrary: s) (auto simp add: add_to_python_path_path)


lemma scan_argv_has_marker:
  "item \<in> set items \<Longrightarrow> startswith item ''-I'' \<Longrightarrow>
   abspath (drop 2 item) \<in> set (sys_path (scan_argv abspath items s))"
  by (auto simp add: scan_argv_set)

lemma split_sep_not_Nil: "split_sep p \<noteq> []"
  by (induction p) (auto split: list.splits)

lemma split_sep_trailing: "split_sep (p @ ''/'') = split_sep p @ [[]]"
proof (induction p)
  case Nil
  show ?case by simp
next
  case (Cons c cs)
  then show ?case
    using split_sep_not_Nil [of cs] by (cases "split_sep cs") auto
qed

lemma norm_comps_trailing: "norm_comps k (xs @ [[]]) acc = norm_comps k xs acc"
  by (induction xs arbitrary: acc) simp_all

lemma initial_slashes_trailing:
  assumes "p \<noteq> []" "last p \<noteq> CHR ''/''"
  shows "initial_slashes (p @ ''/'') = initial_slashes p"
proof (cases p)
  case Nil
  with assms show ?thesis by simp
next
  case p1: (Cons a q)
  show ?thesis
  proof (cases q)
    case Nil
    with p1 assms show ?thesis by (simp add: initial_slashes_def startswith_def)
  next
    case p2: (Cons b r)
    show ?thesis
    proof (cases r)
      case Nil
      with p1 p2 assms show ?thesis by (simp add: initial_slashes_def startswith_def)
    next
      case (Cons c t)
      with p1 p2 show ?thesis by (simp add: initial_slashes_def startswith_def)
    qed
  qed
qed

lemma normpath_trailing:
  assumes "p \<noteq> []" "last p \<noteq> CHR ''/''"
  shows "normpath (p @ ''/'') = normpath p"
  using assms
  by (simp add: normpath_def initial_slashes_trailing split_sep_trailing norm_comps_trailing)

lemma endswith_sep: "endswith p ''/'' \<longleftrightarrow> p \<noteq> [] \<and> last p = CHR ''/''"
proof (cases p rule: rev_cases)
  case Nil
  then show ?thesis by (simp add: endswith_def)
next
  case (snoc q c)
  then show ?thesis by (simp add: endswith_def)
qed

lemma os_path_abspath_empty: "os_path_abspath cwd [] = normpath cwd"
proof (cases "cwd = [] \<or> endswith cwd ''/''")
  case True
  then show ?thesis by (auto simp add: os_path_abspath_def posix_join_def startswith_def)
next
  case False
  then have "cwd \<noteq> []" and "last cwd \<noteq> CHR ''/''"
    by (auto simp add: endswith_sep)
  then have "normpath (cwd @ ''/'') = normpath cwd"
    by (rule normpath_trailing)
  with False show ?thesis
    by (simp add: os_path_abspath_def posix_join_def startswith_def)
qed


section \<open>The search-path patcher: properties\<close>

text \<open>
  C9. Frame property of \<open>add_to_python_path\<close>: for every path and every prior
  search path, the list after the call is the list before it, or the list before it
  with the absolute path appended at the end; the earlier entries stay where they
  were; the value returned is the search path as the call leaves it; and
  \<open>sys.argv\<close> is not touched.
\<close>

theorem add_to_python_path_frame:
  "(sys_path (snd (add_to_python_path abspath new_path s)) = sys_path s \<or>
    sys_path (snd (add_to_python_path abspath new_path s)) = sys_path s @ [abspath new_path]) \<and>
   take (length (sys_path s)) (sys_path (snd (add_to_python_path abspath new_path s))) = sys_path s \<and>
   fst (add_to_python_path abspath new_path s) = sys_path (snd (add_to_python_path abspath new_path s)) \<and>
   sys_argv (snd (add_to_python_path abspath new_path s)) = sys_argv s"
  by (simp add: add_to_python_path_def Let_def)

text \<open>
  C3, amended. A second call of \<open>add_to_python_path\<close> with the same argument
  changes nothing, whatever the search path was. After the two calls the absolute
  form of \<open>P\<close> occurs exactly once when the list held it at most once before them,
  and otherwise as often as before: the membership test keeps the function from
  adding an entry, it removes none.
\<close>

theorem add_to_python_path_twice:
  "snd (add_to_python_path abspath P (snd (add_to_python_path abspath P s))) =
     snd (add_to_python_path abspath P s) \<and>
   count_list (sys_path (snd (add_to_python_path abspath P (snd (add_to_python_path abspath P s)))))
     (abspath P) = max 1 (count_list (sys_path s) (abspath P))"
proof -
  let ?t = "snd (add_to_python_path abspath P s)"
  have present: "abspath P \<in> set (sys_path ?t)"
    by (simp add: add_to_python_path_path)
  then have same: "snd (add_to_python_path abspath P ?t) = ?t"
    by (rule add_to_python_path_present)
  have "count_list (sys_path ?t) (abspath P) = max 1 (count_list (sys_path s) (abspath P))"
  proof (cases "abspath P \<in> set (sys_path s)")
    case True
    then have "count_list (sys_path s) (abspath P) \<noteq> 0"
      by (simp only: count_list_0_iff) simp
    then have "0 < count_list (sys_path s) (abspath P)"
      by simp
    with True show ?thesis by (simp add: add_to_python_path_path max_def)
  next
    case False
    then have "count_list (sys_path s) (abspath P) = 0"
      by (simp add: count_list_0_iff)
    with False show ?thesis by (simp add: add_to_python_path_path)
  qed
  with same show ?thesis by simp
qed

text \<open>
  As the specification words it (exactly one entry, for every search path) the
  property fails on a search path that holds the absolute form twice already.
\<close>

theorem add_to_python_path_twice_counterexample:
  "count_list
     (sys_path (snd (add_to_python_path (os_path_abspath ''/w'') ''lib''
        (snd (add_to_python_path (os_path_abspath ''/w'') ''lib''
           \<lparr>sys_argv = [''grpc_protoc.py'', ''-Ilib''], sys_path = [''/w/lib'', ''/w/lib'']\<rparr>)))))
     (os_path_abspath ''/w'' ''lib'') = 2"
  by code_simp

text \<open>
  C6. An argument \<open>-I\<close> followed by \<open>P\<close> makes the script append the absolute form of
  \<open>P\<close>, if it is not yet an entry, and never \<open>P\<close> as written (when that differs from its
  absolute form and was no entry before). For the whole script: the search path with
  which the compiler is entered holds the earlier entries, in place, followed by
  absolute forms of the paths of the \<open>-I\<close> arguments, and every such absolute form
  is among them.
\<close>

theorem include_argument_adds_abspath:
  "sys_path (scan_argv abspath [''-I'' @ P] s) =
     (if abspath P \<in> set (sys_path s) then sys_path s else sys_path s @ [abspath P]) \<and>
   (abspath P \<noteq> P \<and> P \<notin> set (sys_path s) \<longrightarrow>
      P \<notin> set (sys_path (scan_argv abspath [''-I'' @ P] s))) \<and>
   set (sys_path (at_call (script_main abspath protoc_main s))) =
     set (sys_path s) \<union>
     (\<lambda>a. abspath (drop 2 a)) ` {a \<in> set (sys_argv s). startswith a ''-I''} \<and>
   (\<exists>added. sys_path (at_call (script_main abspath protoc_main s)) = sys_path s @ added)"
proof -
  have one: "sys_path (scan_argv abspath [''-I'' @ P] s) =
     (if abspath P \<in> set (sys_path s) then sys_path s else sys_path s @ [abspath P])"
    by (simp add: startswith_def add_to_python_path_path)
  then have raw: "abspath P \<noteq> P \<and> P \<notin> set (sys_path s) \<longrightarrow>
      P \<notin> set (sys_path (scan_argv abspath [''-I'' @ P] s))"
    by auto
  have all: "set (sys_path (at_call (script_main abspath protoc_main s))) =
     set (sys_path s) \<union>
     (\<lambda>a. abspath (drop 2 a)) ` {a \<in> set (sys_argv s). startswith a ''-I''}"
    by (simp add: script_main_def Let_def scan_argv_set)
  have ext: "\<exists>added. sys_path (at_call (script_main abspath protoc_main s)) = sys_path s @ added"
    by (simp add: script_main_def Let_def scan_argv_extends)
  from one raw all ext show ?thesis by blast
qed

theorem include_argument_adds_abspath_example:
  "os_path_abspath ''/w'' ''foo/bar'' = ''/w/foo/bar'' \<and>
   sys_path (scan_argv (os_path_abspath ''/w'') [''-I'' @ ''foo/bar'']
      \<lparr>sys_argv = [''grpc_protoc.py'', ''-Ifoo/bar'', ''a.proto''], sys_path = [''/usr/lib'']\<rparr>) =
     [''/usr/lib'', ''/w/foo/bar''] \<and>
   ''foo/bar'' \<notin> set (sys_path (scan_argv (os_path_abspath ''/w'') [''-I'' @ ''foo/bar'']
      \<lparr>sys_argv = [''grpc_protoc.py'', ''-Ifoo/bar'', ''a.proto''], sys_path = [''/usr/lib'']\<rparr>)) \<and>
   set (sys_path (at_call (script_main (os_path_abspath ''/w'') (\<lambda>args. Inr 0 :: unit + int)
      \<lparr>sys_argv = [''grpc_protoc.py'', ''-Ifoo/bar'', ''a.proto''], sys_path = [''/usr/lib'']\<rparr>))) =
     {''/usr/lib'', ''/w/foo/bar''}"
proof -
  let ?A = "os_path_abspath ''/w''"
  let ?s = "\<lparr>sys_argv = [''grpc_protoc.py'', ''-Ifoo/bar'', ''a.proto''], sys_path = [''/usr/lib'']\<rparr>"
  note inst = include_argument_adds_abspath [of ?A "''foo/bar''" ?s "\<lambda>args. Inr 0 :: unit + int"]
  have a: "?A ''foo/bar'' = ''/w/foo/bar''"
    by code_simp
  have marked: "{a \<in> set (sys_argv ?s). startswith a ''-I''} = {''-Ifoo/bar''}"
    by (auto simp add: startswith_def)
  from inst have "sys_path (scan_argv ?A [''-I'' @ ''foo/bar''] ?s) =
      (if ?A ''foo/bar'' \<in> set (sys_path ?s) then sys_path ?s else sys_path ?s @ [?A ''foo/bar''])"
    by blast
  then have c1: "sys_path (scan_argv ?A [''-I'' @ ''foo/bar''] ?s) = [''/usr/lib'', ''/w/foo/bar'']"
    by (simp add: a)
  from inst have "?A ''foo/bar'' \<noteq> ''foo/bar'' \<and> ''foo/bar'' \<notin> set (sys_path ?s) \<longrightarrow>
      ''foo/bar'' \<notin> set (sys_path (scan_argv ?A [''-I'' @ ''foo/bar''] ?s))"
    by blast
  then have c2: "''foo/bar'' \<notin> set (sys_path (scan_argv ?A [''-I'' @ ''foo/bar''] ?s))"
    by (simp add: a)
  from inst have "set (sys_path (at_call (script_main ?A (\<lambda>args. Inr 0 :: unit + int) ?s))) =
      set (sys_path ?s) \<union> (\<lambda>a. ?A (drop 2 a)) ` {a \<in> set (sys_argv ?s). startswith a ''-I''}"
    by blast
  then have c3: "set (sys_path (at_call (script_main ?A (\<lambda>args. Inr 0 :: unit + int) ?s))) =
      {''/usr/lib'', ''/w/foo/bar''}"
    by (simp only: marked) (auto simp add: a)
  from a c1 c2 c3 show ?thesis by blast
qed

text \<open>
  C10. The membership test of \<open>add_to_python_path\<close> compares the absolute form only.
  When that form is an entry, nothing is added. When the search path holds the same
  directory under another spelling \<open>e\<close> (one with the same absolute form) and not the
  absolute form itself, the absolute form is appended all the same: it then occurs
  once, next to \<open>e\<close>, and at least two entries resolve to that directory.
\<close>

theorem add_to_python_path_compares_absolute_form:
  "(abspath P \<in> set (sys_path s) \<longrightarrow> snd (add_to_python_path abspath P s) = s) \<and>
   (e \<in> set (sys_path s) \<and> abspath e = abspath P \<and> abspath P \<notin> set (sys_path s) \<longrightarrow>
      sys_path (snd (add_to_python_path abspath P s)) = sys_path s @ [abspath P] \<and>
      e \<noteq> abspath P \<and>
      count_list (sys_path (snd (add_to_python_path abspath P s))) (abspath P) = 1 \<and>
      (abspath (abspath P) = abspath P \<longrightarrow>
         2 \<le> length (filter (\<lambda>x. abspath x = abspath P)
                (sys_path (snd (add_to_python_path abspath P s))))))"
proof -
  have 1: "abspath P \<in> set (sys_path s) \<longrightarrow> snd (add_to_python_path abspath P s) = s"
    by (simp add: add_to_python_path_present)
  have 2: "sys_path (snd (add_to_python_path abspath P s)) = sys_path s @ [abspath P] \<and>
      e \<noteq> abspath P \<and>
      count_list (sys_path (snd (add_to_python_path abspath P s))) (abspath P) = 1 \<and>
      (abspath (abspath P) = abspath P \<longrightarrow>
         2 \<le> length (filter (\<lambda>x. abspath x = abspath P)
                (sys_path (snd (add_to_python_path abspath P s)))))"
    if h: "e \<in> set (sys_path s)" "abspath e = abspath P" "abspath P \<notin> set (sys_path s)"
  proof -
    have r: "sys_path (snd (add_to_python_path abspath P s)) = sys_path s @ [abspath P]"
      using h(3) by (simp add: add_to_python_path_path)
    have ne: "e \<noteq> abspath P"
      using h(1) h(3) by blast
    have c: "count_list (sys_path s @ [abspath P]) (abspath P) = 1"
      using h(3) by simp
    have "filter (\<lambda>x. abspath x = abspath P) (sys_path s) \<noteq> []"
      using h(1) h(2) by (auto simp add: filter_empty_conv)
    then have "1 \<le> length (filter (\<lambda>x. abspath x = abspath P) (sys_path s))"
      by (simp add: Suc_le_eq)
    then have f: "abspath (abspath P) = abspath P \<longrightarrow>
         2 \<le> length (filter (\<lambda>x. abspath x = abspath P) (sys_path s @ [abspath P]))"
      by simp
    from r ne c f show ?thesis by simp
  qed
  from 1 2 show ?thesis by blast
qed

theorem add_to_python_path_compares_absolute_form_example:
  "sys_path (snd (add_to_python_path (os_path_abspath ''/w'') ''./lib''
      \<lparr>sys_argv = [], sys_path = [''/usr/lib'', ''/w/lib'']\<rparr>)) = [''/usr/lib'', ''/w/lib''] \<and>
   os_path_abspath ''/w'' ''lib'' = os_path_abspath ''/w'' ''./lib'' \<and>
   sys_path (snd (add_to_python_path (os_path_abspath ''/w'') ''./lib''
      \<lparr>sys_argv = [], sys_path = [''/usr/lib'', ''lib'']\<rparr>)) = [''/usr/lib'', ''lib'', ''/w/lib''] \<and>
   2 \<le> length (filter (\<lambda>x. os_path_abspath ''/w'' x = os_path_abspath ''/w'' ''./lib'')
          (sys_path (snd (add_to_python_path (os_path_abspath ''/w'') ''./lib''
             \<lparr>sys_argv = [], sys_path = [''/usr/lib'', ''lib'']\<rparr>))))"
proof -
  let ?A = "os_path_abspath ''/w''"
  let ?s1 = "\<lparr>sys_argv = [], sys_path = [''/usr/lib'', ''/w/lib'']\<rparr>"
  let ?s2 = "\<lparr>sys_argv = [], sys_path = [''/usr/lib'', ''lib'']\<rparr>"
  have a1: "?A ''./lib'' = ''/w/lib''" by code_simp
  have a2: "?A ''lib'' = ''/w/lib''" by code_simp
  have a3: "?A ''/w/lib'' = ''/w/lib''" by code_simp
  have p1: "?A ''./lib'' \<in> set (sys_path ?s1)"
    by (simp add: a1)
  have p2: "''lib'' \<in> set (sys_path ?s2) \<and> ?A ''lib'' = ?A ''./lib'' \<and>
            ?A ''./lib'' \<notin> set (sys_path ?s2)"
    by (simp add: a1 a2)
  have p3: "?A (?A ''./lib'') = ?A ''./lib''"
    by (simp add: a1 a3)
  from add_to_python_path_compares_absolute_form [of ?A "''./lib''" ?s1 "''lib''"] p1
  have "snd (add_to_python_path ?A ''./lib'' ?s1) = ?s1"
    by blast
  then have c1: "sys_path (snd (add_to_python_path ?A ''./lib'' ?s1)) = [''/usr/lib'', ''/w/lib'']"
    by simp
  from add_to_python_path_compares_absolute_form [of ?A "''./lib''" ?s2 "''lib''"] p2 p3
  have c2: "sys_path (snd (add_to_python_path ?A ''./lib'' ?s2)) = sys_path ?s2 @ [?A ''./lib'']"
    and c3: "2 \<le> length (filter (\<lambda>x. ?A x = ?A ''./lib'')
                   (sys_path (snd (add_to_python_path ?A ''./lib'' ?s2))))"
    by blast+
  from c2 have c4: "sys_path (snd (add_to_python_path ?A ''./lib'' ?s2)) =
      [''/usr/lib'', ''lib'', ''/w/lib'']"
    by (simp add: a1)
  from p2 have c5: "?A ''lib'' = ?A ''./lib''"
    by blast
  from c1 c5 c4 c3 show ?thesis
    by blast
qed






text \<open>
  C2, amended. After the scan the script passes \<open>sys.argv[1:]\<close>, unchanged, to the
  compiler entry point. The status that call returns is dropped: when the call
  returns, the script ends normally with exit status 0, whatever was returned; an
  exception of the call leaves the script uncaught.
\<close>

theorem script_main_discards_status:
  "protoc_argv (script_main abspath protoc_main s) = drop 1 (sys_argv s) \<and>
   (\<forall>returned. protoc_main (drop 1 (sys_argv s)) = Inr returned \<longrightarrow>
      outcome (script_main abspath protoc_main s) = Inr 0) \<and>
   (\<forall>e. protoc_main (drop 1 (sys_argv s)) = Inl e \<longrightarrow>
      outcome (script_main abspath protoc_main s) = Inl e)"
  by (simp add: script_main_def Let_def scan_argv_argv)

theorem script_main_discards_status_witness:
  "(\<lambda>args. Inr 1 :: unit + int) (drop 1 [''grpc_protoc.py'', ''missing.proto'']) = Inr 1 \<and>
   (\<lambda>args. Inl () :: unit + int) (drop 1 [''grpc_protoc.py'', ''missing.proto'']) = Inl () \<and>
   outcome (script_main (os_path_abspath ''/w'') (\<lambda>args. Inr 1 :: unit + int)
      \<lparr>sys_argv = [''grpc_protoc.py'', ''missing.proto''], sys_path = []\<rparr>) = Inr 0 \<and>
   outcome (script_main (os_path_abspath ''/w'') (\<lambda>args. Inl () :: unit + int)
      \<lparr>sys_argv = [''grpc_protoc.py'', ''missing.proto''], sys_path = []\<rparr>) = Inl ()"
proof -
  let ?s = "\<lparr>sys_argv = [''grpc_protoc.py'', ''missing.proto''], sys_path = []\<rparr>"
  have r: "(\<lambda>args. Inr 1 :: unit + int) (drop 1 (sys_argv ?s)) = Inr 1" by simp
  have e: "(\<lambda>args. Inl () :: unit + int) (drop 1 (sys_argv ?s)) = Inl ()" by simp
  from script_main_discards_status [of "os_path_abspath ''/w''" "\<lambda>args. Inr 1 :: unit + int" ?s] r
  have 1: "outcome (script_main (os_path_abspath ''/w'') (\<lambda>args. Inr 1 :: unit + int) ?s) = Inr 0"
    by blast
  from script_main_discards_status [of "os_path_abspath ''/w''" "\<lambda>args. Inl () :: unit + int" ?s] e
  have 2: "outcome (script_main (os_path_abspath ''/w'') (\<lambda>args. Inl () :: unit + int) ?s) = Inl ()"
    by blast
  from 1 2 show ?thesis by simp
qed

text \<open>
  As the specification words it (the script ends with the status of the compiler
  call) the property fails when the compiler returns the status 1.
\<close>

theorem script_main_exit_status_counterexample:
  "protoc_argv (script_main (os_path_abspath ''/w'') (\<lambda>args. Inr 1 :: unit + int)
      \<lparr>sys_argv = [''grpc_protoc.py'', ''missing.proto''], sys_path = [''/usr/lib'']\<rparr>) =
     [''missing.proto''] \<and>
   outcome (script_main (os_path_abspath ''/w'') (\<lambda>args. Inr 1 :: unit + int)
      \<lparr>sys_argv = [''grpc_protoc.py'', ''missing.proto''], sys_path = [''/usr/lib'']\<rparr>) = Inr 0 \<and>
   outcome (script_main (os_path_abspath ''/w'') (\<lambda>args. Inr 1 :: unit + int)
      \<lparr>sys_argv = [''grpc_protoc.py'', ''missing.proto''], sys_path = [''/usr/lib'']\<rparr>) \<noteq> Inr 1"
  by (simp add: script_main_def Let_def startswith_def)

text \<open>
  C8. A bare \<open>-I\<close> passes the prefix test and its slice \<open>[2:]\<close> is the empty string.
  With the POSIX \<open>abspath\<close> and a working directory \<open>cwd\<close> in normal form (as
  \<open>os.getcwd()\<close> reports it), the empty string resolves to \<open>cwd\<close>, which is appended to
  the search path unless it is an entry already; so whenever \<open>sys.argv\<close> holds a bare
  \<open>-I\<close>, the compiler is entered with \<open>cwd\<close> on the search path.
\<close>

theorem bare_include_marker_adds_cwd:
  assumes "normpath cwd = cwd"
  shows "startswith ''-I'' ''-I'' \<and> drop 2 ''-I'' = [] \<and>
         os_path_abspath cwd (drop 2 ''-I'') = cwd \<and>
         scan_argv (os_path_abspath cwd) (''-I'' # items) s =
           scan_argv (os_path_abspath cwd) items
             (snd (add_to_python_path (os_path_abspath cwd) [] s)) \<and>
         sys_path (snd (add_to_python_path (os_path_abspath cwd) [] s)) =
           (if cwd \<in> set (sys_path s) then sys_path s else sys_path s @ [cwd]) \<and>
         (''-I'' \<in> set (sys_argv s) \<longrightarrow>
            cwd \<in> set (sys_path (at_call (script_main (os_path_abspath cwd) protoc_main s))))"
proof -
  have a: "os_path_abspath cwd [] = cwd"
    using assms by (simp add: os_path_abspath_empty)
  have m: "startswith ''-I'' ''-I''"
    by (simp add: startswith_def)
  have "''-I'' \<in> set (sys_argv s) \<Longrightarrow>
        cwd \<in> set (sys_path (at_call (script_main (os_path_abspath cwd) protoc_main s)))"
    using scan_argv_has_marker [of "''-I''" "sys_argv s" "os_path_abspath cwd" s] m a
    by (simp add: script_main_def Let_def)
  with a m show ?thesis
    by (simp add: add_to_python_path_path)
qed

theorem bare_include_marker_adds_cwd_example:
  "normpath ''/w'' = ''/w'' \<and>
   ''-I'' \<in> set [''grpc_protoc.py'', ''-I'', ''a.proto''] \<and>
   os_path_abspath ''/w'' (drop 2 ''-I'') = ''/w'' \<and>
   sys_path (snd (add_to_python_path (os_path_abspath ''/w'') []
      \<lparr>sys_argv = [''grpc_protoc.py'', ''-I'', ''a.proto''], sys_path = [''/usr/lib'']\<rparr>)) =
     [''/usr/lib'', ''/w''] \<and>
   ''/w'' \<in> set (sys_path (at_call (script_main (os_path_abspath ''/w'') (\<lambda>args. Inr 0 :: unit + int)
      \<lparr>sys_argv = [''grpc_protoc.py'', ''-I'', ''a.proto''], sys_path = [''/usr/lib'']\<rparr>)))"
proof -
  let ?s = "\<lparr>sys_argv = [''grpc_protoc.py'', ''-I'', ''a.proto''], sys_path = [''/usr/lib'']\<rparr>"
  have n: "normpath ''/w'' = ''/w''"
    by code_simp
  have i: "''-I'' \<in> set (sys_argv ?s)"
    by simp
  from bare_include_marker_adds_cwd [OF n, of "[]" ?s "\<lambda>args. Inr 0 :: unit + int"] n i
  show ?thesis by simp
qed

end
